theory Spec2Isabelle
  imports Complex_Main
begin

section \<open>Values and errors of the Python program\<close>

text \<open>
  The program is \<^verbatim>\<open>src/main.py\<close>: a class \<^verbatim>\<open>CompanyClassifier\<close> with five
  heuristic predicates over one company row, a call to an external analysis provider
  with a fallback, the per-row classification and the batch summary printed by
  \<^verbatim>\<open>main\<close>.

  Exceptions are values: a function that can raise returns \<open>error + 'a\<close>, with
  \<open>Inl\<close> for the exception.
\<close>

datatype error =
    ZeroDivisionError
  | TypeError
  | AttributeError
  | ValueError
  | KeyError
  | OtherError string

definition and_then :: "error + 'a \<Rightarrow> ('a \<Rightarrow> error + 'b) \<Rightarrow> error + 'b" where
  \<comment> \<open>sequencing: the first exception ends the evaluation\<close>
  "and_then m f = (case m of Inl e \<Rightarrow> Inl e | Inr x \<Rightarrow> f x)"

text \<open>
  A growth rate is a Python float. The model keeps its finite values as real numbers
  and the not-a-number value that pandas gives an empty cell; rounding, overflow and
  the infinities of binary floating point are outside the model. Every comparison
  with \<open>NaN\<close> is false, as in Python.
\<close>

datatype pyfloat = Fin real | NaN

definition isna :: "pyfloat \<Rightarrow> bool" where
  \<comment> \<open>\<^verbatim>\<open>pd.isna\<close> on a float\<close>
  "isna x = (case x of NaN \<Rightarrow> True | Fin _ \<Rightarrow> False)"

fun py_lt :: "pyfloat \<Rightarrow> pyfloat \<Rightarrow> bool" where
  "py_lt (Fin a) (Fin b) = (a < b)"
| "py_lt _ _ = False"

fun py_le :: "pyfloat \<Rightarrow> pyfloat \<Rightarrow> bool" where
  "py_le (Fin a) (Fin b) = (a \<le> b)"
| "py_le _ _ = False"

definition py_gt :: "pyfloat \<Rightarrow> pyfloat \<Rightarrow> bool" where
  "py_gt a b = py_lt b a"

fun py_mul :: "pyfloat \<Rightarrow> pyfloat \<Rightarrow> pyfloat" where
  "py_mul (Fin a) (Fin b) = Fin (a * b)"
| "py_mul _ _ = NaN"

fun py_truediv :: "pyfloat \<Rightarrow> pyfloat \<Rightarrow> error + pyfloat" where
  \<comment> \<open>\<^verbatim>\<open>a / b\<close> on floats: a zero divisor raises\<close>
  "py_truediv (Fin a) (Fin b) = (if b = 0 then Inl ZeroDivisionError else Inr (Fin (a / b)))"
| "py_truediv NaN (Fin b) = (if b = 0 then Inl ZeroDivisionError else Inr NaN)"
| "py_truediv _ NaN = Inr NaN"

fun py_min :: "pyfloat list \<Rightarrow> error + pyfloat" where
  \<comment> \<open>the builtin \<^verbatim>\<open>min\<close>: the first item, replaced by a later item only when that is less\<close>
  "py_min [] = Inl ValueError"
| "py_min (x # xs) = Inr (foldl (\<lambda>m y. if py_lt y m then y else m) x xs)"

fun py_max :: "pyfloat list \<Rightarrow> error + pyfloat" where
  \<comment> \<open>the builtin \<^verbatim>\<open>max\<close>: the first item, replaced by a later item only when that is greater\<close>
  "py_max [] = Inl ValueError"
| "py_max (x # xs) = Inr (foldl (\<lambda>m y. if py_gt y m then y else m) x xs)"

section \<open>The growth-stability evaluator\<close>

text \<open>
  \<^verbatim>\<open>
  def has_stable_growth(self, growth_2y, growth_1y, growth_6m):
      if pd.isna(growth_2y):
          return growth_1y > growth_6m > 0
      rates = [growth_2y/2, growth_1y, growth_6m*2]
      if min(rates) <= 0:
          return False
      return max(rates) / min(rates) < 3
  \<close>
\<close>

definition has_stable_growth :: "pyfloat \<Rightarrow> pyfloat \<Rightarrow> pyfloat \<Rightarrow> error + bool" where
  "has_stable_growth growth_2y growth_1y growth_6m =
     (if isna growth_2y then Inr (py_gt growth_1y growth_6m \<and> py_gt growth_6m (Fin 0))
      else
        and_then (py_truediv growth_2y (Fin 2)) (\<lambda>r2.
          let rates = [r2, growth_1y, py_mul growth_6m (Fin 2)] in
          and_then (py_min rates) (\<lambda>lo.
            if py_le lo (Fin 0) then Inr False
            else
              and_then (py_max rates) (\<lambda>hi.
              and_then (py_min rates) (\<lambda>lo'.
              and_then (py_truediv hi lo') (\<lambda>q.
                Inr (py_lt q (Fin 3))))))))"



section \<open>The other heuristic predicates\<close>

definition is_founded_recently :: "int \<Rightarrow> int \<Rightarrow> bool" where
  \<comment> \<open>\<^verbatim>\<open>self.current_year - founded_year <= 5\<close>; the first argument is \<^verbatim>\<open>self.current_year\<close>\<close>
  "is_founded_recently current_year founded_year = (current_year - founded_year \<le> 5)"

definition has_valid_employee_count :: "int \<Rightarrow> bool" where
  "has_valid_employee_count employee_count = (20 \<le> employee_count \<and> employee_count \<le> 60)"

fun occurs_in :: "string \<Rightarrow> string \<Rightarrow> bool" where
  \<comment> \<open>\<^verbatim>\<open>needle in hay\<close> on strings: a contiguous occurrence\<close>
  "occurs_in needle [] = (needle = [])"
| "occurs_in needle (h # hay) = (take (length needle) (h # hay) = needle \<or> occurs_in needle hay)"

definition is_north_american :: "string \<Rightarrow> bool" where
  "is_north_american headquarters = list_ex (\<lambda>country. occurs_in country headquarters) [''USA'', ''Canada'']"

text \<open>
  \<^verbatim>\<open>
  def is_mostly_north_american(self, locations):
      try:
          loc_dict = json.loads(locations.replace("'", '"'))
          total_employees = sum(loc_dict.values())
          na_employees = loc_dict.get('USA', 0) + loc_dict.get('Canada', 0)
          return (na_employees / total_employees) > 0.5
      except:
          return False
  \<close>
  \<^verbatim>\<open>json.loads\<close> is a library function: it is a parameter of the model, a function from
  the text to the value it returns or the exception it raises. A JSON object is the
  list of its items, with distinct keys as in a Python dict. Numbers are held exactly;
  the quotient of two counts below \<open>2^53\<close> compares with \<open>0.5\<close> as the exact quotient does.
\<close>

datatype json =
    JNull
  | JBool bool
  | JNum rat
  | JStr string
  | JList "json list"
  | JObject "(string \<times> json) list"

definition replace_quotes :: "string \<Rightarrow> string" where
  \<comment> \<open>\<^verbatim>\<open>locations.replace("'", '"')\<close>\<close>
  "replace_quotes locations = map (\<lambda>ch. if ch = CHR 0x27 then CHR 0x22 else ch) locations"

definition dict_values :: "json \<Rightarrow> error + json list" where
  \<comment> \<open>\<^verbatim>\<open>loc_dict.values()\<close>: only a dict has the method\<close>
  "dict_values v = (case v of JObject items \<Rightarrow> Inr (map snd items) | _ \<Rightarrow> Inl AttributeError)"

definition dict_get :: "json \<Rightarrow> string \<Rightarrow> json \<Rightarrow> error + json" where
  \<comment> \<open>\<^verbatim>\<open>loc_dict.get(key, default)\<close>\<close>
  "dict_get v key dflt =
     (case v of
        JObject items \<Rightarrow> Inr (case map_of items key of None \<Rightarrow> dflt | Some x \<Rightarrow> x)
      | _ \<Rightarrow> Inl AttributeError)"

definition number :: "json \<Rightarrow> error + rat" where
  \<comment> \<open>an operand of \<^verbatim>\<open>+\<close> next to a number: a number or a bool, anything else raises\<close>
  "number v =
     (case v of
        JNum n \<Rightarrow> Inr n
      | JBool b \<Rightarrow> Inr (if b then 1 else 0)
      | _ \<Rightarrow> Inl TypeError)"

fun py_sum :: "rat \<Rightarrow> json list \<Rightarrow> error + rat" where
  \<comment> \<open>the builtin \<^verbatim>\<open>sum\<close>, from the running total\<close>
  "py_sum acc [] = Inr acc"
| "py_sum acc (v # vs) = and_then (number v) (\<lambda>n. py_sum (acc + n) vs)"

definition truediv :: "rat \<Rightarrow> rat \<Rightarrow> error + rat" where
  "truediv a b = (if b = 0 then Inl ZeroDivisionError else Inr (a / b))"

definition mostly_north_american_body :: "(string \<Rightarrow> error + json) \<Rightarrow> string \<Rightarrow> error + bool" where
  \<comment> \<open>the body of the \<^verbatim>\<open>try\<close>\<close>
  "mostly_north_american_body json_loads locations =
     and_then (json_loads (replace_quotes locations)) (\<lambda>loc_dict.
     and_then (dict_values loc_dict) (\<lambda>vals.
     and_then (py_sum 0 vals) (\<lambda>total_employees.
     and_then (dict_get loc_dict ''USA'' (JNum 0)) (\<lambda>usa.
     and_then (dict_get loc_dict ''Canada'' (JNum 0)) (\<lambda>canada.
     and_then (number usa) (\<lambda>u.
     and_then (number canada) (\<lambda>c.
     and_then (truediv (u + c) total_employees) (\<lambda>ratio.
       Inr (ratio > 1 / 2)))))))))"

definition is_mostly_north_american :: "(string \<Rightarrow> error + json) \<Rightarrow> string \<Rightarrow> bool" where
  \<comment> \<open>the bare \<^verbatim>\<open>except\<close> turns every exception into \<^verbatim>\<open>False\<close>\<close>
  "is_mostly_north_american json_loads locations =
     (case mostly_north_american_body json_loads locations of Inl _ \<Rightarrow> False | Inr b \<Rightarrow> b)"





section \<open>The external analysis\<close>

record CompanyAnalysis =
  is_saas :: bool
  growth_potential :: int
  risk_level :: int
  key_strengths :: "string list"
  concerns :: "string list"
  target_market :: string
  competitive_advantage :: string

text \<open>
  The provider is the call \<^verbatim>\<open>openai.beta.chat.completions.parse\<close> followed by the
  read of \<^verbatim>\<open>response.choices[0].message.parsed\<close>: a parameter of the model, a function
  from the request (company name, description, industry; the prompt is built from
  these three) to the parsed analysis or the exception raised. The message printed in
  the handler is not modelled.
\<close>

type_synonym provider = "string \<times> string \<times> string \<Rightarrow> error + CompanyAnalysis"

definition fallback_analysis :: CompanyAnalysis where
  "fallback_analysis =
     \<lparr>is_saas = False, growth_potential = 0, risk_level = 10,
      key_strengths = [''Analysis failed''], concerns = [''Analysis failed''],
      target_market = ''Unknown'', competitive_advantage = ''Unknown''\<rparr>"

definition get_gpt_analysis :: "provider \<Rightarrow> string \<Rightarrow> string \<Rightarrow> string \<Rightarrow> CompanyAnalysis" where
  "get_gpt_analysis provider company_name description industry =
     (case provider (company_name, description, industry) of
        Inr parsed \<Rightarrow> parsed
      | Inl e \<Rightarrow> fallback_analysis)"

definition scores_in_range :: "CompanyAnalysis \<Rightarrow> bool" where
  \<comment> \<open>the invariant of the specification's data model: both scores lie in [0, 10]\<close>
  "scores_in_range a =
     (0 \<le> growth_potential a \<and> growth_potential a \<le> 10 \<and> 0 \<le> risk_level a \<and> risk_level a \<le> 10)"

section \<open>The classification of a row and of the batch\<close>

record company =
  Company_Name :: string
  Description :: string
  Industry :: string
  Founded_Year :: int
  Total_Employees :: int
  Headquarters :: string
  Employee_Locations :: string
  Employee_Growth_2Y :: pyfloat
  Employee_Growth_1Y :: pyfloat
  Employee_Growth_6M :: pyfloat

datatype cell = S string | I int

type_synonym row = "(string \<times> cell) list"

fun join :: "string \<Rightarrow> string list \<Rightarrow> string" where
  \<comment> \<open>\<^verbatim>\<open>sep.join(items)\<close>\<close>
  "join sep [] = []"
| "join sep [x] = x"
| "join sep (x # y # ys) = x @ sep @ join sep (y # ys)"

definition basic_criteria_met :: "int \<Rightarrow> (string \<Rightarrow> error + json) \<Rightarrow> company \<Rightarrow> error + bool" where
  \<comment> \<open>the chain of \<^verbatim>\<open>and\<close>: the first false operand ends it\<close>
  "basic_criteria_met current_year json_loads c =
     (if \<not> is_founded_recently current_year (Founded_Year c) then Inr False
      else if \<not> has_valid_employee_count (Total_Employees c) then Inr False
      else if \<not> is_north_american (Headquarters c) then Inr False
      else if \<not> is_mostly_north_american json_loads (Employee_Locations c) then Inr False
      else has_stable_growth (Employee_Growth_2Y c) (Employee_Growth_1Y c) (Employee_Growth_6M c))"

definition advanced_criteria_met :: "CompanyAnalysis \<Rightarrow> bool" where
  "advanced_criteria_met gpt_analysis =
     (is_saas gpt_analysis \<and> growth_potential gpt_analysis \<ge> 7 \<and> risk_level gpt_analysis \<le> 6)"

definition classify_company ::
    "int \<Rightarrow> (string \<Rightarrow> error + json) \<Rightarrow> provider \<Rightarrow> company \<Rightarrow> error + row" where
  \<comment> \<open>the body of the loop of \<^verbatim>\<open>classify_companies\<close>: the dict appended to \<^verbatim>\<open>results\<close>\<close>
  "classify_company current_year json_loads provider c =
     (let gpt_analysis = get_gpt_analysis provider (Company_Name c) (Description c) (Industry c) in
      and_then (basic_criteria_met current_year json_loads c) (\<lambda>basic.
        let advanced = advanced_criteria_met gpt_analysis;
            interesting = (basic \<and> advanced)
        in Inr
          [(''Company Name'', S (Company_Name c)),
           (''Founded Year'', I (Founded_Year c)),
           (''Total Employees'', I (Total_Employees c)),
           (''Headquarters'', S (Headquarters c)),
           (''Industry'', S (Industry c)),
           (''Growth Potential'', I (growth_potential gpt_analysis)),
           (''Risk Level'', I (risk_level gpt_analysis)),
           (''Key Strengths'', S (join '', '' (key_strengths gpt_analysis))),
           (''Concerns'', S (join '', '' (concerns gpt_analysis))),
           (''Target Market'', S (target_market gpt_analysis)),
           (''Competitive Advantage'', S (competitive_advantage gpt_analysis)),
           (''Interesting'', S (if interesting then ''Yes'' else ''No''))]))"

fun classify_companies ::
    "int \<Rightarrow> (string \<Rightarrow> error + json) \<Rightarrow> provider \<Rightarrow> company list \<Rightarrow> error + row list" where
  "classify_companies current_year json_loads provider [] = Inr []"
| "classify_companies current_year json_loads provider (c # df) =
     and_then (classify_company current_year json_loads provider c) (\<lambda>r.
     and_then (classify_companies current_year json_loads provider df) (\<lambda>results.
       Inr (r # results)))"

section \<open>The batch summary\<close>

text \<open>
  \<^verbatim>\<open>
  total = len(results)
  interesting = sum(results['Interesting'] == 'Yes')
  print(f"Percentage interesting: {(interesting/total)*100:.1f}%")
  \<close>
  The claim about this line is about rounding, so here the floats are modelled as they
  are: a double is the rational number it denotes, and every operation returns the
  double nearest to the exact result, a tie going to the even significand (53 bits).
  The exponent range is not bounded: a percentage is far from overflow and underflow.
  \<^verbatim>\<open>:.1f\<close> prints the decimal with one fractional digit nearest to the double, a tie
  going to the even digit.
\<close>

definition round_half_even :: "rat \<Rightarrow> int" where
  "round_half_even x =
     (let f = \<lfloor>x\<rfloor>; d = x - of_int f in
      if d < 1 / 2 then f else if 1 / 2 < d then f + 1 else if even f then f else f + 1)"

fun bit_length :: "nat \<Rightarrow> nat" where
  "bit_length n = (if n = 0 then 0 else Suc (bit_length (n div 2)))"

declare bit_length.simps [simp del]

definition exponent :: "rat \<Rightarrow> int" where
  \<comment> \<open>the \<open>e\<close> with \<open>2^e \<le> |x| < 2^(e+1)\<close>, for \<open>x \<noteq> 0\<close>\<close>
  "exponent x =
     (if 1 \<le> \<bar>x\<bar> then int (bit_length (nat \<lfloor>\<bar>x\<bar>\<rfloor>)) - 1
      else - int (bit_length (nat (\<lceil>1 / \<bar>x\<bar>\<rceil> - 1))))"

definition to_double :: "rat \<Rightarrow> rat" where
  "to_double x =
     (if x = 0 then 0
      else let ulp = 2 powi (exponent x - 52) in of_int (round_half_even (x / ulp)) * ulp)"

definition int_truediv :: "int \<Rightarrow> int \<Rightarrow> error + rat" where
  \<comment> \<open>\<^verbatim>\<open>a / b\<close> on integers: the double nearest to the quotient\<close>
  "int_truediv a b =
     (if b = 0 then Inl ZeroDivisionError else Inr (to_double (of_int a / of_int b)))"

definition float_mul :: "rat \<Rightarrow> rat \<Rightarrow> rat" where
  "float_mul a b = to_double (a * b)"

fun show_nat :: "nat \<Rightarrow> string" where
  "show_nat n =
     (if n < 10 then [''0123456789'' ! n]
      else show_nat (n div 10) @ [''0123456789'' ! (n mod 10)])"

declare show_nat.simps [simp del]

definition decimal_1 :: "nat \<Rightarrow> string" where
  \<comment> \<open>the text of \<open>n / 10\<close> with one fractional digit\<close>
  "decimal_1 n = show_nat (n div 10) @ ''.'' @ show_nat (n mod 10)"

definition format_1f :: "rat \<Rightarrow> string" where
  \<comment> \<open>\<^verbatim>\<open>f"{x:.1f}"\<close>\<close>
  "format_1f x =
     (if x < 0 then ''-'' else []) @ decimal_1 (nat (round_half_even (\<bar>x\<bar> * 10)))"

definition count_interesting :: "row list \<Rightarrow> nat" where
  \<comment> \<open>\<^verbatim>\<open>sum(results['Interesting'] == 'Yes')\<close>\<close>
  "count_interesting results =
     length (filter (\<lambda>r. map_of r ''Interesting'' = Some (S ''Yes'')) results)"

definition percentage :: "row list \<Rightarrow> error + rat" where
  \<comment> \<open>\<^verbatim>\<open>(interesting/total)*100\<close>; a frame built from no rows has no column to read\<close>
  "percentage results =
     (if results = [] then Inl KeyError
      else
        let total = int (length results);
            interesting = int (count_interesting results)
        in and_then (int_truediv interesting total) (\<lambda>q. Inr (float_mul q 100)))"

definition percentage_interesting :: "row list \<Rightarrow> error + string" where
  \<comment> \<open>what follows \<^verbatim>\<open>Percentage interesting: \<close> on the printed line\<close>
  "percentage_interesting results =
     and_then (percentage results) (\<lambda>p. Inr (format_1f p @ ''%''))"

text \<open>
  The percentage in the words of the specification: the exact quotient as a
  percentage, with one decimal place, a half rounded away from zero.
\<close>

definition round_half_away :: "rat \<Rightarrow> int" where
  "round_half_away x = (if 0 \<le> x then \<lfloor>x + 1 / 2\<rfloor> else - \<lfloor>- x + 1 / 2\<rfloor>)"

definition spec_percentage :: "nat \<Rightarrow> nat \<Rightarrow> string" where
  "spec_percentage n_interesting n_total =
     decimal_1 (nat (round_half_away (of_nat n_interesting / of_nat n_total * 100 * 10))) @ ''%''"

section \<open>Example inputs\<close>

text \<open>
  A company that meets the five heuristic predicates in 2024, the text of its employee
  distribution, a parser that knows this one text, and a provider whose answer depends
  on the description it is sent.
\<close>

definition example_locations :: string where
  \<comment> \<open>\<^verbatim>\<open>{'USA': 60, 'UK': 40}\<close>\<close>
  "example_locations =
     ''{'' @ [CHR 0x27] @ ''USA'' @ [CHR 0x27] @ '': 60, '' @ [CHR 0x27] @ ''UK'' @ [CHR 0x27] @ '': 40}''"

definition example_json_loads :: "string \<Rightarrow> error + json" where
  "example_json_loads text =
     (if text = replace_quotes example_locations
      then Inr (JObject [(''USA'', JNum 60), (''UK'', JNum 40)])
      else Inl ValueError)"

definition example_analysis :: CompanyAnalysis where
  "example_analysis =
     \<lparr>is_saas = True, growth_potential = 8, risk_level = 3,
      key_strengths = [''Recurring revenue'', ''Low churn''], concerns = [''Small market''],
      target_market = ''Clinics'', competitive_advantage = ''Integrations''\<rparr>"

definition example_provider :: provider where
  "example_provider request =
     (case request of (company_name, description, industry) \<Rightarrow>
        if description = ''unreachable'' then Inl (OtherError ''timeout'')
        else if description = ''hardware'' then Inr (example_analysis\<lparr>is_saas := False\<rparr>)
        else if description = ''risky'' then Inr (example_analysis\<lparr>risk_level := 7\<rparr>)
        else if description = ''overrated'' then Inr (example_analysis\<lparr>growth_potential := 11\<rparr>)
        else Inr example_analysis)"

definition example_company :: company where
  "example_company =
     \<lparr>Company_Name = ''Acme'', Description = ''billing software'', Industry = ''Software'',
      Founded_Year = 2021, Total_Employees = 40, Headquarters = ''Austin, USA'',
      Employee_Locations = example_locations,
      Employee_Growth_2Y = Fin 40, Employee_Growth_1Y = Fin 30, Employee_Growth_6M = Fin 12\<rparr>"

definition example_results :: "row list" where
  \<comment> \<open>seven rows, three of them interesting; only the column that the summary reads\<close>
  "example_results =
     [[(''Interesting'', S ''Yes'')], [(''Interesting'', S ''No'')], [(''Interesting'', S ''Yes'')],
      [(''Interesting'', S ''No'')], [(''Interesting'', S ''Yes'')], [(''Interesting'', S ''No'')],
      [(''Interesting'', S ''No'')]]"

section \<open>Sequencing and the float operations\<close>

lemma and_then_Inr: "and_then (Inr x) f = f x"
  by (simp add: and_then_def)






lemma foldl_min_Fin: "\<exists>l. foldl (\<lambda>m y. if py_lt y m then y else m) (Fin a) ys = Fin l"
proof (induction ys arbitrary: a)
  case Nil
  show ?case by simp
next
  case (Cons y ys)
  show ?case
  proof (cases y)
    case (Fin b)
    then show ?thesis using Cons.IH [of a] Cons.IH [of b] by simp
  next
    case NaN
    then show ?thesis using Cons.IH [of a] by simp
  qed
qed

lemma py_min_Fin: "\<exists>l. py_min (Fin a # ys) = Inr (Fin l)"
  using foldl_min_Fin [of a ys] by simp

lemma py_max_cons: "\<exists>h. py_max (x # ys) = Inr h"
  by simp

text \<open>
  With a defined 2-year rate the evaluator is a test on the minimum and, after it, one
  division of the maximum by the minimum.
\<close>

lemma has_stable_growth_Fin:
  assumes "py_min [Fin (r / 2), g1, py_mul g6 (Fin 2)] = Inr lo"
    and "py_max [Fin (r / 2), g1, py_mul g6 (Fin 2)] = Inr hi"
  shows "has_stable_growth (Fin r) g1 g6 =
    (if py_le lo (Fin 0) then Inr False
     else and_then (py_truediv hi lo) (\<lambda>q. Inr (py_lt q (Fin 3))))"
proof -
  have half: "py_truediv (Fin r) (Fin 2) = Inr (Fin (r / 2))"
    by simp
  show ?thesis
    unfolding has_stable_growth_def Let_def half and_then_Inr assms
    by (simp add: isna_def)
qed

lemma has_stable_growth_total:
  "\<exists>b. has_stable_growth growth_2y growth_1y growth_6m = Inr b"
proof (cases growth_2y)
  case NaN
  then show ?thesis by (simp add: has_stable_growth_def isna_def)
next
  case (Fin r)
  let ?rates = "[Fin (r / 2), growth_1y, py_mul growth_6m (Fin 2)]"
  obtain l where lo: "py_min ?rates = Inr (Fin l)"
    using py_min_Fin by blast
  obtain h where hi: "py_max ?rates = Inr h"
    using py_max_cons by blast
  note eq = has_stable_growth_Fin [OF lo hi]
  show ?thesis
  proof (cases "l \<le> 0")
    case True
    then have "has_stable_growth growth_2y growth_1y growth_6m = Inr False"
      unfolding Fin eq by simp
    then show ?thesis ..
  next
    case False
    then have "\<exists>q. py_truediv h (Fin l) = Inr q"
      by (cases h) auto
    then obtain q where q: "py_truediv h (Fin l) = Inr q" ..
    from False have "has_stable_growth growth_2y growth_1y growth_6m = Inr (py_lt q (Fin 3))"
      unfolding Fin eq q and_then_Inr by simp
    then show ?thesis ..
  qed
qed

section \<open>The growth-stability evaluator and its reference definition\<close>


text \<open>
  The data model gives only the 2-year rate an undefined value. A 1-year rate that is
  \<open>NaN\<close> next to a defined 2-year rate is not part of the claim; there \<^verbatim>\<open>min\<close> and
  \<^verbatim>\<open>max\<close> keep their first item and pass over the \<open>NaN\<close>.
\<close>

lemma has_stable_growth_nan_1y: "has_stable_growth (Fin 20) NaN (Fin 5) = Inr True"
  by (simp add: has_stable_growth_def isna_def and_then_def py_gt_def)

text \<open>
  C7. With a defined 2-year rate the quotient of the maximum by the minimum is taken
  only after the test that the minimum is strictly positive, so the division never
  meets a zero divisor: for every triplet (a \<open>NaN\<close> in any place included) the
  evaluator returns a boolean and raises nothing, \<^verbatim>\<open>ZeroDivisionError\<close> in particular;
  and when the division is reached, the divisor is a number above zero.
\<close>

theorem has_stable_growth_division_safe:
  "(\<exists>b. has_stable_growth growth_2y growth_1y growth_6m = Inr b) \<and>
   (\<forall>r. growth_2y = Fin r \<longrightarrow>
      (\<exists>lo hi. py_min [Fin (r / 2), growth_1y, py_mul growth_6m (Fin 2)] = Inr (Fin lo) \<and>
         py_max [Fin (r / 2), growth_1y, py_mul growth_6m (Fin 2)] = Inr hi \<and>
         has_stable_growth growth_2y growth_1y growth_6m =
           (if lo \<le> 0 then Inr False
            else and_then (py_truediv hi (Fin lo)) (\<lambda>q. Inr (py_lt q (Fin 3)))) \<and>
         (0 < lo \<longrightarrow> (\<exists>q. py_truediv hi (Fin lo) = Inr q))))"
proof (intro conjI allI impI)
  show "\<exists>b. has_stable_growth growth_2y growth_1y growth_6m = Inr b"
    by (rule has_stable_growth_total)
next
  fix r
  assume g2: "growth_2y = Fin r"
  let ?rates = "[Fin (r / 2), growth_1y, py_mul growth_6m (Fin 2)]"
  obtain l where lo: "py_min ?rates = Inr (Fin l)"
    using py_min_Fin by blast
  obtain h where hi: "py_max ?rates = Inr h"
    using py_max_cons by blast
  have eq: "has_stable_growth growth_2y growth_1y growth_6m =
      (if l \<le> 0 then Inr False
       else and_then (py_truediv h (Fin l)) (\<lambda>q. Inr (py_lt q (Fin 3))))"
    unfolding g2 has_stable_growth_Fin [OF lo hi] by simp
  have safe: "0 < l \<longrightarrow> (\<exists>q. py_truediv h (Fin l) = Inr q)"
    by (cases h) auto
  from lo hi eq safe
  show "\<exists>lo hi. py_min ?rates = Inr (Fin lo) \<and> py_max ?rates = Inr hi \<and>
      has_stable_growth growth_2y growth_1y growth_6m =
        (if lo \<le> 0 then Inr False
         else and_then (py_truediv hi (Fin lo)) (\<lambda>q. Inr (py_lt q (Fin 3)))) \<and>
      (0 < lo \<longrightarrow> (\<exists>q. py_truediv hi (Fin lo) = Inr q))"
    by blast
qed

theorem has_stable_growth_division_safe_witness:
  "has_stable_growth (Fin 40) (Fin 30) (Fin 12) = Inr True \<and>
   has_stable_growth (Fin 40) (Fin 0) (Fin 12) = Inr False \<and>
   py_min [Fin (40 / 2), Fin 30, py_mul (Fin 12) (Fin 2)] = Inr (Fin 20) \<and> (0::real) < 20 \<and>
   py_truediv (Fin 30) (Fin 20) = Inr (Fin (3 / 2))"
proof -
  have "\<exists>b. has_stable_growth (Fin 40) (Fin 30) (Fin 12) = Inr b"
    using has_stable_growth_division_safe [of "Fin 40" "Fin 30" "Fin 12"] by blast
  moreover have "has_stable_growth (Fin 40) (Fin 30) (Fin 12) = Inr True"
    by (simp add: has_stable_growth_def isna_def and_then_def py_gt_def)
  moreover have "has_stable_growth (Fin 40) (Fin 0) (Fin 12) = Inr False"
    by (simp add: has_stable_growth_def isna_def and_then_def py_gt_def)
  ultimately show ?thesis
    by simp
qed

section \<open>Scaling a growth triplet\<close>












section \<open>The age predicate\<close>

text \<open>
  C9. The age predicate bounds the age from above only: for every founded year that is
  strictly greater than the current year (a negative age) it returns true; nothing
  checks the founded year from below.
\<close>

theorem is_founded_recently_future_year:
  "current_year < founded_year \<Longrightarrow> is_founded_recently current_year founded_year"
  by (simp add: is_founded_recently_def)

theorem is_founded_recently_future_year_witness:
  "(2024::int) < 2031 \<and> is_founded_recently 2024 2031 \<and> \<not> is_founded_recently 2024 2018"
  using is_founded_recently_future_year [of 2024 2031]
  by (simp add: is_founded_recently_def)

section \<open>The share of employees in North America\<close>






section \<open>The classification of one row\<close>

lemma basic_criteria_met_eq:
  "basic_criteria_met current_year json_loads c =
     Inr (is_founded_recently current_year (Founded_Year c) \<and>
          has_valid_employee_count (Total_Employees c) \<and>
          is_north_american (Headquarters c) \<and>
          is_mostly_north_american json_loads (Employee_Locations c) \<and>
          has_stable_growth (Employee_Growth_2Y c) (Employee_Growth_1Y c)
            (Employee_Growth_6M c) = Inr True)"
proof -
  obtain b where b: "has_stable_growth (Employee_Growth_2Y c) (Employee_Growth_1Y c)
      (Employee_Growth_6M c) = Inr b"
    using has_stable_growth_total by blast
  show ?thesis
    by (simp add: basic_criteria_met_def b)
qed

lemma classify_company_row:
  "\<exists>basic. basic_criteria_met current_year json_loads c = Inr basic \<and>
     classify_company current_year json_loads provider c =
       Inr [(''Company Name'', S (Company_Name c)),
            (''Founded Year'', I (Founded_Year c)),
            (''Total Employees'', I (Total_Employees c)),
            (''Headquarters'', S (Headquarters c)),
            (''Industry'', S (Industry c)),
            (''Growth Potential'', I (growth_potential
                (get_gpt_analysis provider (Company_Name c) (Description c) (Industry c)))),
            (''Risk Level'', I (risk_level
                (get_gpt_analysis provider (Company_Name c) (Description c) (Industry c)))),
            (''Key Strengths'', S (join '', '' (key_strengths
                (get_gpt_analysis provider (Company_Name c) (Description c) (Industry c))))),
            (''Concerns'', S (join '', '' (concerns
                (get_gpt_analysis provider (Company_Name c) (Description c) (Industry c))))),
            (''Target Market'', S (target_market
                (get_gpt_analysis provider (Company_Name c) (Description c) (Industry c)))),
            (''Competitive Advantage'', S (competitive_advantage
                (get_gpt_analysis provider (Company_Name c) (Description c) (Industry c)))),
            (''Interesting'', S (if basic \<and> advanced_criteria_met
                (get_gpt_analysis provider (Company_Name c) (Description c) (Industry c))
              then ''Yes'' else ''No''))]"
  unfolding classify_company_def Let_def basic_criteria_met_eq and_then_Inr
  by blast

lemma classify_company_flag:
  "\<exists>r. classify_company current_year json_loads provider c = Inr r \<and>
     map_of r ''Interesting'' =
       Some (S (if (is_founded_recently current_year (Founded_Year c) \<and>
                    has_valid_employee_count (Total_Employees c) \<and>
                    is_north_american (Headquarters c) \<and>
                    is_mostly_north_american json_loads (Employee_Locations c) \<and>
                    has_stable_growth (Employee_Growth_2Y c) (Employee_Growth_1Y c)
                      (Employee_Growth_6M c) = Inr True) \<and>
                   advanced_criteria_met
                     (get_gpt_analysis provider (Company_Name c) (Description c) (Industry c))
                then ''Yes'' else ''No''))"
proof -
  obtain basic where b: "basic_criteria_met current_year json_loads c = Inr basic"
    and r: "classify_company current_year json_loads provider c =
       Inr [(''Company Name'', S (Company_Name c)),
            (''Founded Year'', I (Founded_Year c)),
            (''Total Employees'', I (Total_Employees c)),
            (''Headquarters'', S (Headquarters c)),
            (''Industry'', S (Industry c)),
            (''Growth Potential'', I (growth_potential
                (get_gpt_analysis provider (Company_Name c) (Description c) (Industry c)))),
            (''Risk Level'', I (risk_level
                (get_gpt_analysis provider (Company_Name c) (Description c) (Industry c)))),
            (''Key Strengths'', S (join '', '' (key_strengths
                (get_gpt_analysis provider (Company_Name c) (Description c) (Industry c))))),
            (''Concerns'', S (join '', '' (concerns
                (get_gpt_analysis provider (Company_Name c) (Description c) (Industry c))))),
            (''Target Market'', S (target_market
                (get_gpt_analysis provider (Company_Name c) (Description c) (Industry c)))),
            (''Competitive Advantage'', S (competitive_advantage
                (get_gpt_analysis provider (Company_Name c) (Description c) (Industry c)))),
            (''Interesting'', S (if basic \<and> advanced_criteria_met
                (get_gpt_analysis provider (Company_Name c) (Description c) (Industry c))
              then ''Yes'' else ''No''))]"
    using classify_company_row [of current_year json_loads c provider] by blast
  from b have basic: "basic =
      (is_founded_recently current_year (Founded_Year c) \<and>
       has_valid_employee_count (Total_Employees c) \<and>
       is_north_american (Headquarters c) \<and>
       is_mostly_north_american json_loads (Employee_Locations c) \<and>
       has_stable_growth (Employee_Growth_2Y c) (Employee_Growth_1Y c)
         (Employee_Growth_6M c) = Inr True)"
    unfolding basic_criteria_met_eq by simp
  show ?thesis
    unfolding r basic [symmetric] by simp
qed

text \<open>
  C1. For every company record of the batch, the final classification is the
  conjunction of the heuristic and the external verdicts: the column
  \<^verbatim>\<open>Interesting\<close> of the record's row is \<^verbatim>\<open>Yes\<close> if and only if all five heuristic
  predicates hold and the verdict of the external analysis has \<^verbatim>\<open>is_saas\<close> true,
  \<^verbatim>\<open>growth_potential >= 7\<close> and \<^verbatim>\<open>risk_level <= 6\<close>; otherwise it is \<^verbatim>\<open>No\<close>. The
  batch returns one row per record, in order.
\<close>

theorem classify_companies_interesting:
  "\<exists>results. classify_companies current_year json_loads provider df = Inr results \<and>
     map (\<lambda>r. map_of r ''Interesting'') results =
     map (\<lambda>c. Some (S (
        if (is_founded_recently current_year (Founded_Year c) \<and>
            has_valid_employee_count (Total_Employees c) \<and>
            is_north_american (Headquarters c) \<and>
            is_mostly_north_american json_loads (Employee_Locations c) \<and>
            has_stable_growth (Employee_Growth_2Y c) (Employee_Growth_1Y c)
              (Employee_Growth_6M c) = Inr True) \<and>
           (is_saas (get_gpt_analysis provider (Company_Name c) (Description c) (Industry c)) \<and>
            7 \<le> growth_potential
              (get_gpt_analysis provider (Company_Name c) (Description c) (Industry c)) \<and>
            risk_level
              (get_gpt_analysis provider (Company_Name c) (Description c) (Industry c)) \<le> 6)
        then ''Yes'' else ''No''))) df"
proof (induction df)
  case Nil
  show ?case by simp
next
  case (Cons c df)
  from Cons.IH obtain results
    where rest: "classify_companies current_year json_loads provider df = Inr results"
      and flags: "map (\<lambda>r. map_of r ''Interesting'') results =
     map (\<lambda>c. Some (S (
        if (is_founded_recently current_year (Founded_Year c) \<and>
            has_valid_employee_count (Total_Employees c) \<and>
            is_north_american (Headquarters c) \<and>
            is_mostly_north_american json_loads (Employee_Locations c) \<and>
            has_stable_growth (Employee_Growth_2Y c) (Employee_Growth_1Y c)
              (Employee_Growth_6M c) = Inr True) \<and>
           (is_saas (get_gpt_analysis provider (Company_Name c) (Description c) (Industry c)) \<and>
            7 \<le> growth_potential
              (get_gpt_analysis provider (Company_Name c) (Description c) (Industry c)) \<and>
            risk_level
              (get_gpt_analysis provider (Company_Name c) (Description c) (Industry c)) \<le> 6)
        then ''Yes'' else ''No''))) df"
    by blast
  obtain r where r: "classify_company current_year json_loads provider c = Inr r"
    and flag: "map_of r ''Interesting'' =
       Some (S (if (is_founded_recently current_year (Founded_Year c) \<and>
                    has_valid_employee_count (Total_Employees c) \<and>
                    is_north_american (Headquarters c) \<and>
                    is_mostly_north_american json_loads (Employee_Locations c) \<and>
                    has_stable_growth (Employee_Growth_2Y c) (Employee_Growth_1Y c)
                      (Employee_Growth_6M c) = Inr True) \<and>
                   advanced_criteria_met
                     (get_gpt_analysis provider (Company_Name c) (Description c) (Industry c))
                then ''Yes'' else ''No''))"
    using classify_company_flag [of current_year json_loads provider c] by blast
  have "classify_companies current_year json_loads provider (c # df) = Inr (r # results)"
    by (simp add: r rest and_then_Inr)
  moreover have "map (\<lambda>r. map_of r ''Interesting'') (r # results) =
     map (\<lambda>c. Some (S (
        if (is_founded_recently current_year (Founded_Year c) \<and>
            has_valid_employee_count (Total_Employees c) \<and>
            is_north_american (Headquarters c) \<and>
            is_mostly_north_american json_loads (Employee_Locations c) \<and>
            has_stable_growth (Employee_Growth_2Y c) (Employee_Growth_1Y c)
              (Employee_Growth_6M c) = Inr True) \<and>
           (is_saas (get_gpt_analysis provider (Company_Name c) (Description c) (Industry c)) \<and>
            7 \<le> growth_potential
              (get_gpt_analysis provider (Company_Name c) (Description c) (Industry c)) \<and>
            risk_level
              (get_gpt_analysis provider (Company_Name c) (Description c) (Industry c)) \<le> 6)
        then ''Yes'' else ''No''))) (c # df)"
    unfolding list.map flags flag advanced_criteria_met_def by simp
  ultimately show ?case
    by blast
qed

text \<open>
  The end-to-end case of the specification: the example company meets the five
  predicates, and with a verdict \<^verbatim>\<open>is_saas\<close>, growth 8, risk 3 its row says \<^verbatim>\<open>Yes\<close>;
  the same record with risk 7 gets \<^verbatim>\<open>No\<close>.
\<close>

lemma example_locations_mostly_north_american:
  "is_mostly_north_american example_json_loads example_locations"
  by (simp add: is_mostly_north_american_def mostly_north_american_body_def
      example_json_loads_def and_then_def dict_values_def dict_get_def number_def truediv_def)

lemma example_company_basic:
  "basic_criteria_met 2024 example_json_loads example_company = Inr True"
  by (simp add: basic_criteria_met_def example_company_def is_founded_recently_def
      has_valid_employee_count_def is_north_american_def
      example_locations_mostly_north_american
      has_stable_growth_def isna_def and_then_def py_gt_def)

lemma example_company_unstable_basic:
  "basic_criteria_met 2024 example_json_loads
     (example_company\<lparr>Employee_Growth_6M := Fin (- 5)\<rparr>) = Inr False"
  by (simp add: basic_criteria_met_def example_company_def is_founded_recently_def
      has_valid_employee_count_def is_north_american_def
      example_locations_mostly_north_american
      has_stable_growth_def isna_def and_then_def py_gt_def)

lemma classify_example_company:
  "\<exists>r. classify_company 2024 example_json_loads example_provider example_company = Inr r \<and>
     map_of r ''Interesting'' = Some (S ''Yes'')"
  using classify_company_row [of 2024 example_json_loads example_company example_provider]
  unfolding example_company_basic
  by (auto simp: example_company_def example_provider_def example_analysis_def
      get_gpt_analysis_def advanced_criteria_met_def)

lemma classify_example_company_risky:
  "\<exists>r. classify_company 2024 example_json_loads example_provider
       (example_company\<lparr>Description := ''risky''\<rparr>) = Inr r \<and>
     map_of r ''Interesting'' = Some (S ''No'')"
  using classify_company_row [of 2024 example_json_loads
      "example_company\<lparr>Description := ''risky''\<rparr>" example_provider]
  by (auto simp: example_company_def example_provider_def example_analysis_def
      get_gpt_analysis_def advanced_criteria_met_def)

section \<open>The external analysis and its fallback\<close>

text \<open>
  C3. For every call in which the provider raises an exception, the port returns the
  sentinel verdict (\<^verbatim>\<open>is_saas\<close> false, growth potential 0, risk level 10, strengths and
  concerns each the one entry \<^verbatim>\<open>Analysis failed\<close>, target market and competitive
  advantage \<^verbatim>\<open>Unknown\<close>) instead of the exception, and the engine still produces the
  record's row, with \<^verbatim>\<open>Interesting\<close> = \<^verbatim>\<open>No\<close>.
\<close>

theorem provider_failure_contained:
  assumes "provider (Company_Name c, Description c, Industry c) = Inl e"
  shows "get_gpt_analysis provider (Company_Name c) (Description c) (Industry c) =
       \<lparr>is_saas = False, growth_potential = 0, risk_level = 10,
        key_strengths = [''Analysis failed''], concerns = [''Analysis failed''],
        target_market = ''Unknown'', competitive_advantage = ''Unknown''\<rparr> \<and>
     (\<exists>r. classify_company current_year json_loads provider c = Inr r \<and>
        map_of r ''Interesting'' = Some (S ''No'') \<and>
        map_of r ''Growth Potential'' = Some (I 0) \<and>
        map_of r ''Risk Level'' = Some (I 10) \<and>
        map_of r ''Key Strengths'' = Some (S ''Analysis failed'') \<and>
        map_of r ''Concerns'' = Some (S ''Analysis failed''))"
proof -
  have g: "get_gpt_analysis provider (Company_Name c) (Description c) (Industry c) =
      fallback_analysis"
    by (simp add: get_gpt_analysis_def assms)
  have adv: "\<not> advanced_criteria_met fallback_analysis"
    by (simp add: advanced_criteria_met_def fallback_analysis_def)
  obtain basic where "classify_company current_year json_loads provider c =
       Inr [(''Company Name'', S (Company_Name c)),
            (''Founded Year'', I (Founded_Year c)),
            (''Total Employees'', I (Total_Employees c)),
            (''Headquarters'', S (Headquarters c)),
            (''Industry'', S (Industry c)),
            (''Growth Potential'', I (growth_potential fallback_analysis)),
            (''Risk Level'', I (risk_level fallback_analysis)),
            (''Key Strengths'', S (join '', '' (key_strengths fallback_analysis))),
            (''Concerns'', S (join '', '' (concerns fallback_analysis))),
            (''Target Market'', S (target_market fallback_analysis)),
            (''Competitive Advantage'', S (competitive_advantage fallback_analysis)),
            (''Interesting'', S (if basic \<and> advanced_criteria_met fallback_analysis
              then ''Yes'' else ''No''))]"
    using classify_company_row [of current_year json_loads c provider] unfolding g by blast
  then have "\<exists>r. classify_company current_year json_loads provider c = Inr r \<and>
        map_of r ''Interesting'' = Some (S ''No'') \<and>
        map_of r ''Growth Potential'' = Some (I 0) \<and>
        map_of r ''Risk Level'' = Some (I 10) \<and>
        map_of r ''Key Strengths'' = Some (S ''Analysis failed'') \<and>
        map_of r ''Concerns'' = Some (S ''Analysis failed'')"
    using adv by (simp add: fallback_analysis_def)
  then show ?thesis
    unfolding g by (simp add: fallback_analysis_def)
qed

theorem provider_failure_contained_witness:
  "example_provider (Company_Name (example_company\<lparr>Description := ''unreachable''\<rparr>),
      Description (example_company\<lparr>Description := ''unreachable''\<rparr>),
      Industry (example_company\<lparr>Description := ''unreachable''\<rparr>)) = Inl (OtherError ''timeout'') \<and>
   risk_level (get_gpt_analysis example_provider ''Acme'' ''unreachable'' ''Software'') = 10 \<and>
   (\<exists>r. classify_company 2024 example_json_loads example_provider
          (example_company\<lparr>Description := ''unreachable''\<rparr>) = Inr r \<and>
        map_of r ''Interesting'' = Some (S ''No''))"
proof -
  have fails: "example_provider (Company_Name (example_company\<lparr>Description := ''unreachable''\<rparr>),
      Description (example_company\<lparr>Description := ''unreachable''\<rparr>),
      Industry (example_company\<lparr>Description := ''unreachable''\<rparr>)) = Inl (OtherError ''timeout'')"
    by (simp add: example_provider_def example_company_def)
  have names: "Company_Name (example_company\<lparr>Description := ''unreachable''\<rparr>) = ''Acme''"
    "Description (example_company\<lparr>Description := ''unreachable''\<rparr>) = ''unreachable''"
    "Industry (example_company\<lparr>Description := ''unreachable''\<rparr>) = ''Software''"
    by (simp_all add: example_company_def)
  note contained = provider_failure_contained
    [where provider = example_provider
       and c = "example_company\<lparr>Description := ''unreachable''\<rparr>"
       and e = "OtherError ''timeout''" and current_year = 2024
       and json_loads = example_json_loads, OF fails]
  from contained fails show ?thesis
    unfolding names by auto
qed

text \<open>
  C4, as the code has it. The analysis model declares the two scores as integers with
  no bound, and the port returns the provider's parsed answer as it is. So the verdict
  handed to the engine has its scores in [0, 10] on the fallback path always, and on
  the successful path exactly when the provider's answer has them there.
\<close>

theorem get_gpt_analysis_scores:
  "scores_in_range (get_gpt_analysis provider company_name description industry) =
     (case provider (company_name, description, industry) of
        Inl e \<Rightarrow> True
      | Inr parsed \<Rightarrow> scores_in_range parsed)"
  by (cases "provider (company_name, description, industry)")
     (simp_all add: get_gpt_analysis_def scores_in_range_def fallback_analysis_def)

text \<open>
  The claim as stated (every verdict handed over has both scores in [0, 10]) fails for
  a provider that answers with a growth potential of 11.
\<close>

theorem get_gpt_analysis_scores_counterexample:
  "growth_potential (get_gpt_analysis example_provider ''Acme'' ''overrated'' ''Software'') = 11 \<and>
   \<not> scores_in_range (get_gpt_analysis example_provider ''Acme'' ''overrated'' ''Software'')"
  by (simp add: get_gpt_analysis_def example_provider_def example_analysis_def
      scores_in_range_def)

section \<open>The columns of a result row\<close>

text \<open>
  C5, as the code has it. Every row has exactly twelve columns: the five echoed fields,
  the six fields taken from the verdict (the two scores, the joined strengths and
  concerns, the target market and the competitive advantage) and the final flag
  \<^verbatim>\<open>Interesting\<close>. The two intermediate booleans are computed and not emitted.
\<close>

theorem classify_company_columns:
  "\<exists>r. classify_company current_year json_loads provider c = Inr r \<and>
     map fst r =
       [''Company Name'', ''Founded Year'', ''Total Employees'', ''Headquarters'', ''Industry'',
        ''Growth Potential'', ''Risk Level'', ''Key Strengths'', ''Concerns'', ''Target Market'',
        ''Competitive Advantage'', ''Interesting'']"
  using classify_company_row [of current_year json_loads c provider]
  by auto

text \<open>
  The claim as stated (the row carries heuristics-passed and external-criteria-passed)
  fails: two records get the same row, while the first passes the heuristics and fails
  the external criteria and the second fails the heuristics and passes the external
  criteria. Nothing in a row tells the two apart.
\<close>

theorem classify_company_columns_counterexample:
  "classify_company 2024 example_json_loads example_provider
       (example_company\<lparr>Description := ''hardware''\<rparr>) =
     classify_company 2024 example_json_loads example_provider
       (example_company\<lparr>Employee_Growth_6M := Fin (- 5)\<rparr>) \<and>
   basic_criteria_met 2024 example_json_loads (example_company\<lparr>Description := ''hardware''\<rparr>)
     = Inr True \<and>
   basic_criteria_met 2024 example_json_loads (example_company\<lparr>Employee_Growth_6M := Fin (- 5)\<rparr>)
     = Inr False \<and>
   advanced_criteria_met (get_gpt_analysis example_provider ''Acme'' ''hardware'' ''Software'')
     = False \<and>
   advanced_criteria_met (get_gpt_analysis example_provider ''Acme'' ''billing software'' ''Software'')
     = True"
proof -
  have same: "basic_criteria_met 2024 example_json_loads
      (example_company\<lparr>Description := ''hardware''\<rparr>) =
      basic_criteria_met 2024 example_json_loads example_company"
    by (simp add: basic_criteria_met_def)
  have a: "classify_company 2024 example_json_loads example_provider
       (example_company\<lparr>Description := ''hardware''\<rparr>) =
     classify_company 2024 example_json_loads example_provider
       (example_company\<lparr>Employee_Growth_6M := Fin (- 5)\<rparr>)"
    unfolding classify_company_def Let_def same example_company_basic
      example_company_unstable_basic and_then_Inr
    by (simp add: example_company_def example_provider_def example_analysis_def
        get_gpt_analysis_def advanced_criteria_met_def)
  have b: "advanced_criteria_met
      (get_gpt_analysis example_provider ''Acme'' ''hardware'' ''Software'') = False"
    "advanced_criteria_met
      (get_gpt_analysis example_provider ''Acme'' ''billing software'' ''Software'') = True"
    by (simp_all add: example_provider_def example_analysis_def
        get_gpt_analysis_def advanced_criteria_met_def)
  show ?thesis
    using a b same example_company_basic example_company_unstable_basic by simp
qed

section \<open>Rounding to the nearest, ties to even\<close>

lemma floor_split:
  obtains f :: int and d :: rat where "x = of_int f + d" "0 \<le> d" "d < 1" "\<lfloor>x\<rfloor> = f"
proof
  show "x = of_int \<lfloor>x\<rfloor> + (x - of_int \<lfloor>x\<rfloor>)"
    by simp
  show "0 \<le> x - of_int \<lfloor>x\<rfloor>" and "x - of_int \<lfloor>x\<rfloor> < 1"
    by linarith+
  show "\<lfloor>x\<rfloor> = \<lfloor>x\<rfloor>" ..
qed

lemma round_half_even_cases:
  assumes "x = of_int f + d" "0 \<le> d" "d < 1"
  shows "round_half_even x =
    (if d < 1 / 2 then f else if 1 / 2 < d then f + 1 else if even f then f else f + 1)"
proof -
  from assms have "\<lfloor>x\<rfloor> = f"
    by (simp add: floor_unique)
  then show ?thesis
    unfolding round_half_even_def Let_def using assms(1) by simp
qed

lemma round_half_even_near: "\<bar>of_int (round_half_even x) - x\<bar> \<le> 1 / 2"
proof -
  obtain f d where x: "x = of_int f + d" and d: "0 \<le> d" "d < 1"
    by (rule floor_split)
  note r = round_half_even_cases [OF x d]
  show ?thesis
    unfolding r using x d by (auto simp: abs_if)
qed

lemma round_half_even_tie:
  assumes "\<bar>of_int (round_half_even x) - x\<bar> = 1 / 2"
  shows "even (round_half_even x)"
proof -
  obtain f d where x: "x = of_int f + d" and d: "0 \<le> d" "d < 1"
    by (rule floor_split)
  note r = round_half_even_cases [OF x d]
  from assms show ?thesis
    unfolding r using x d
    by (auto simp: abs_if split: if_splits)
qed

lemma round_half_even_nonneg: "0 \<le> x \<Longrightarrow> 0 \<le> round_half_even x"
proof -
  assume "0 \<le> x"
  then have "0 \<le> \<lfloor>x\<rfloor>"
    by simp
  then show ?thesis
    by (simp add: round_half_even_def Let_def)
qed

lemma to_double_nonneg: "0 \<le> x \<Longrightarrow> 0 \<le> to_double x"
proof -
  assume x: "0 \<le> x"
  have pos: "(0::rat) < 2 powi k" for k
    by simp
  from x have "0 \<le> x / 2 powi (exponent x - 52)"
    using pos [of "exponent x - 52"] by simp
  then have "0 \<le> round_half_even (x / 2 powi (exponent x - 52))"
    by (rule round_half_even_nonneg)
  then show ?thesis
    unfolding to_double_def Let_def using pos [of "exponent x - 52"] by simp
qed

section \<open>The model of a double\<close>

text \<open>
  The exponent brackets the magnitude, and \<open>to_double\<close> returns a multiple of the unit
  in the last place with a significand of at most 53 bits, within half a unit of its
  argument.
\<close>

lemma bit_length_bounds:
  "0 < n \<Longrightarrow> 2 ^ (bit_length n - 1) \<le> n \<and> n < 2 ^ bit_length n"
proof (induction n rule: bit_length.induct)
  case (1 n)
  show ?case
  proof (cases "n div 2 = 0")
    case True
    with "1.prems" have "n = 1"
      by (simp add: div_eq_0_iff)
    then show ?thesis
      by (simp add: bit_length.simps [of "Suc 0"] bit_length.simps [of 0])
  next
    case False
    then have pos: "0 < n div 2"
      by simp
    from "1.prems" have n0: "n \<noteq> 0"
      by simp
    from "1.IH" [OF n0 pos]
    have lo: "2 ^ (bit_length (n div 2) - 1) \<le> n div 2"
      and hi: "n div 2 < 2 ^ bit_length (n div 2)"
      by simp_all
    have bl: "bit_length n = Suc (bit_length (n div 2))"
      using n0 by (simp add: bit_length.simps [of n])
    have bpos: "0 < bit_length (n div 2)"
      using False by (simp add: bit_length.simps [of "n div 2"])
    then obtain k where k: "bit_length (n div 2) = Suc k"
      by (cases "bit_length (n div 2)") simp_all
    from lo have "2 * 2 ^ k \<le> 2 * (n div 2)"
      unfolding k by simp
    also have "\<dots> \<le> n"
      by simp
    finally have l: "2 ^ (bit_length n - 1) \<le> n"
      unfolding bl k by simp
    from hi have "n div 2 + 1 \<le> 2 ^ bit_length (n div 2)"
      by simp
    then have "2 * (n div 2) + 2 \<le> 2 * 2 ^ bit_length (n div 2)"
      by simp
    moreover have "n < 2 * (n div 2) + 2"
      by presburger
    ultimately have "n < 2 ^ bit_length n"
      unfolding bl by simp
    with l show ?thesis ..
  qed
qed

lemma exponent_bounds:
  assumes "x \<noteq> 0"
  shows "2 powi exponent x \<le> \<bar>x\<bar> \<and> \<bar>x\<bar> < 2 powi (exponent x + 1)"
proof (cases "1 \<le> \<bar>x\<bar>")
  case True
  define n where "n = nat \<lfloor>\<bar>x\<bar>\<rfloor>"
  from True have fl: "1 \<le> \<lfloor>\<bar>x\<bar>\<rfloor>"
    by simp
  then have npos: "0 < n"
    unfolding n_def by simp
  have n_le: "of_nat n \<le> \<bar>x\<bar>" and n_gt: "\<bar>x\<bar> < of_nat n + 1"
    unfolding n_def using fl by simp_all linarith+
  from bit_length_bounds [OF npos]
  have lo: "2 ^ (bit_length n - 1) \<le> n" and hi: "n < 2 ^ bit_length n"
    by simp_all
  have bpos: "0 < bit_length n"
    using npos by (simp add: bit_length.simps [of n])
  have e: "exponent x = int (bit_length n - 1)"
    unfolding exponent_def n_def [symmetric] using True bpos by simp
  have e1: "exponent x + 1 = int (bit_length n)"
    unfolding e using bpos by simp
  from lo have "(2::rat) ^ (bit_length n - 1) \<le> of_nat n"
    by (metis of_nat_le_iff of_nat_numeral of_nat_power)
  with n_le have a: "2 powi exponent x \<le> \<bar>x\<bar>"
    unfolding e power_int_of_nat by linarith
  from hi have "n + 1 \<le> 2 ^ bit_length n"
    by simp
  then have "(of_nat (n + 1) :: rat) \<le> of_nat (2 ^ bit_length n)"
    by (rule of_nat_mono)
  then have "(of_nat n :: rat) + 1 \<le> 2 ^ bit_length n"
    by simp
  with n_gt have b: "\<bar>x\<bar> < 2 powi (exponent x + 1)"
    unfolding e1 power_int_of_nat by linarith
  from a b show ?thesis ..
next
  case False
  define y where "y = 1 / \<bar>x\<bar>"
  define m where "m = nat (\<lceil>y\<rceil> - 1)"
  from assms False have ax: "0 < \<bar>x\<bar>" "\<bar>x\<bar> < 1"
    by simp_all
  then have y1: "1 < y"
    unfolding y_def by simp
  then have c2: "2 \<le> \<lceil>y\<rceil>"
    by (simp add: le_ceiling_iff)
  then have mpos: "0 < m"
    unfolding m_def by simp
  have m_lt: "of_nat m < y" and m_ge: "y \<le> of_nat m + 1"
    unfolding m_def using c2 by simp_all linarith+
  from bit_length_bounds [OF mpos]
  have lo: "2 ^ (bit_length m - 1) \<le> m" and hi: "m < 2 ^ bit_length m"
    by simp_all
  have bpos: "0 < bit_length m"
    using mpos by (simp add: bit_length.simps [of m])
  have e: "exponent x = - int (bit_length m)"
    unfolding exponent_def using False by (simp add: y_def m_def)
  have e1: "exponent x + 1 = - int (bit_length m - 1)"
    unfolding e using bpos by simp
  from hi have "m + 1 \<le> 2 ^ bit_length m"
    by simp
  then have "(of_nat (m + 1) :: rat) \<le> of_nat (2 ^ bit_length m)"
    by (rule of_nat_mono)
  then have "(of_nat m :: rat) + 1 \<le> 2 ^ bit_length m"
    by simp
  with m_ge have "y \<le> 2 ^ bit_length m"
    by linarith
  then have "1 \<le> 2 ^ bit_length m * \<bar>x\<bar>"
    unfolding y_def using ax by (simp add: field_simps)
  then have a: "2 powi exponent x \<le> \<bar>x\<bar>"
    unfolding e power_int_minus power_int_of_nat by (simp add: field_simps)
  from lo have "(2::rat) ^ (bit_length m - 1) \<le> of_nat m"
    by (metis of_nat_le_iff of_nat_numeral of_nat_power)
  with m_lt have "2 ^ (bit_length m - 1) < y"
    by linarith
  then have "2 ^ (bit_length m - 1) * \<bar>x\<bar> < 1"
    unfolding y_def using ax by (simp add: field_simps)
  then have b: "\<bar>x\<bar> < 2 powi (exponent x + 1)"
    unfolding e1 power_int_minus power_int_of_nat by (simp add: field_simps)
  from a b show ?thesis ..
qed

lemma to_double_near:
  assumes "x \<noteq> 0"
  shows "\<bar>to_double x - x\<bar> \<le> 2 powi (exponent x - 53)"
proof -
  define u :: rat where "u = 2 powi (exponent x - 52)"
  have upos: "0 < u"
    unfolding u_def by simp
  have half: "u / 2 = 2 powi (exponent x - 53)"
    unfolding u_def by (simp add: power_int_diff)
  have "to_double x - x = (of_int (round_half_even (x / u)) - x / u) * u"
    unfolding to_double_def Let_def u_def [symmetric] using assms upos
    by (simp add: field_simps)
  then have "\<bar>to_double x - x\<bar> = \<bar>of_int (round_half_even (x / u)) - x / u\<bar> * u"
    using upos by (simp add: abs_mult)
  also have "\<dots> \<le> 1 / 2 * u"
    using round_half_even_near [of "x / u"] upos by (intro mult_right_mono) simp_all
  finally show ?thesis
    unfolding half [symmetric] by simp
qed

section \<open>The summary percentage\<close>

lemma percentage_value:
  assumes "results \<noteq> []"
  shows "percentage results =
     Inr (to_double (to_double (of_nat (count_interesting results) / of_nat (length results)) * 100))"
  using assms
  by (simp add: percentage_def Let_def int_truediv_def and_then_Inr float_mul_def)

lemma three_of_seven: "format_1f (to_double (to_double (3 / 7) * 100)) = ''42.9''"
  by code_simp

text \<open>
  C8, as the code has it. The batch summary percentage is the double
  \<^verbatim>\<open>(interesting/total)*100\<close> printed with exactly one decimal place, rounded to the
  nearest tenth, a tie going to the even digit (not away from zero); for every batch
  with 3 interesting results out of 7 the printed percentage is \<^verbatim>\<open>42.9%\<close>.
\<close>

theorem percentage_interesting_rounding:
  assumes "results \<noteq> []"
  shows "\<exists>p n. percentage results = Inr p \<and>
     p = to_double (to_double (of_nat (count_interesting results) / of_nat (length results)) * 100) \<and>
     percentage_interesting results = Inr (decimal_1 n @ ''%'') \<and>
     \<bar>of_nat n - 10 * p\<bar> \<le> 1 / 2 \<and>
     (\<bar>of_nat n - 10 * p\<bar> = 1 / 2 \<longrightarrow> even n) \<and>
     (count_interesting results = 3 \<and> length results = 7 \<longrightarrow>
        percentage_interesting results = Inr ''42.9%'')"
proof -
  define p where
    "p = to_double (to_double (of_nat (count_interesting results) / of_nat (length results)) * 100)"
  define n where "n = nat (round_half_even (p * 10))"
  have val: "percentage results = Inr p"
    unfolding p_def using assms by (rule percentage_value)
  have p0: "0 \<le> p"
    unfolding p_def by (intro to_double_nonneg mult_nonneg_nonneg) simp_all
  then have r0: "0 \<le> round_half_even (p * 10)"
    by (intro round_half_even_nonneg) simp
  then have n: "of_nat n = (of_int (round_half_even (p * 10)) :: rat)"
    unfolding n_def by simp
  have printed: "percentage_interesting results = Inr (decimal_1 n @ ''%'')"
    unfolding percentage_interesting_def val and_then_Inr format_1f_def n_def
    using p0 by simp
  have near: "\<bar>of_nat n - 10 * p\<bar> \<le> 1 / 2"
    unfolding n using round_half_even_near [of "p * 10"] by (simp add: mult.commute)
  have tie: "\<bar>of_nat n - 10 * p\<bar> = 1 / 2 \<longrightarrow> even n"
  proof
    assume "\<bar>of_nat n - 10 * p\<bar> = 1 / 2"
    then have "\<bar>of_int (round_half_even (p * 10)) - p * 10\<bar> = 1 / 2"
      unfolding n by (simp add: mult.commute)
    then have "even (round_half_even (p * 10))"
      by (rule round_half_even_tie)
    with r0 show "even n"
      unfolding n_def by (simp add: even_nat_iff)
  qed
  have seven: "count_interesting results = 3 \<and> length results = 7 \<longrightarrow>
      percentage_interesting results = Inr ''42.9%''"
  proof
    assume c: "count_interesting results = 3 \<and> length results = 7"
    then have "p = to_double (to_double (3 / 7) * 100)"
      unfolding p_def by simp
    then show "percentage_interesting results = Inr ''42.9%''"
      unfolding percentage_interesting_def val and_then_Inr
      by (simp add: three_of_seven)
  qed
  from val printed near tie seven show ?thesis
    unfolding p_def by blast
qed

theorem percentage_interesting_rounding_witness:
  "example_results \<noteq> [] \<and> count_interesting example_results = 3 \<and>
   length example_results = 7 \<and> percentage_interesting example_results = Inr ''42.9%''"
proof -
  have ne: "example_results \<noteq> []"
    by (simp add: example_results_def)
  have c: "count_interesting example_results = 3" "length example_results = 7"
    by (simp_all add: count_interesting_def example_results_def)
  from percentage_interesting_rounding [OF ne] c ne show ?thesis
    by blast
qed

text \<open>
  The claim as stated (a half is rounded away from zero) fails for a batch of sixteen
  rows with one interesting row: the percentage is 6.25, a double, and the code prints
  \<^verbatim>\<open>6.2%\<close> where rounding the half away from zero gives \<^verbatim>\<open>6.3%\<close>.
\<close>

theorem percentage_interesting_counterexample:
  "percentage_interesting
     ([(''Interesting'', S ''Yes'')] # replicate 15 [(''Interesting'', S ''No'')]) = Inr ''6.2%'' \<and>
   spec_percentage 1 16 = ''6.3%''"
  by code_simp

end
